theory Spec2Isabelle
  imports Complex_Main
begin

section \<open>The model of the program\<close>

text \<open>
  The development follows \<^verbatim>\<open>mani_skill/assets/robots/SO101/load_to_rerun.py\<close>, class
  \<^verbatim>\<open>URDFLogger\<close>. Python exceptions are values of the type \<open>error\<close>; a function that
  may raise returns \<open>error + 'a\<close> with \<open>Inl\<close> for the exception.
\<close>

datatype error =
    KeyError
  | UnboundLocalError
  | ValueError
  | IOError
  | NotImplementedError string

type_synonym triple = "real \<times> real \<times> real"

subsection \<open>The parsed URDF model\<close>

text \<open>
  The classes of \<^verbatim>\<open>urdf_parser_py\<close>, with the fields the logger reads. A field that may
  be \<^verbatim>\<open>None\<close> is an option. Python floats are idealised as reals.
\<close>

record pose =
  xyz :: "triple option"
  rpy :: "triple option"

type_synonym rgba = "real \<times> real \<times> real \<times> real"

record material =
  color :: "rgba option"
  texture :: "string option"

datatype geometry =
    Mesh string "triple option"
  | Box triple
  | Cylinder real real
  | Sphere real

record visual =
  visual_origin :: "pose option"
  visual_geometry :: geometry
  visual_material :: "material option"

record link =
  link_name :: string
  visuals :: "visual list"

record joint =
  joint_name :: string
  joint_type :: string
  joint_child :: string
  joint_axis :: "triple option"
  joint_origin :: "pose option"

text \<open>
  \<^verbatim>\<open>URDF.get_root()\<close> and \<^verbatim>\<open>URDF.get_chain(root, tip)\<close> belong to the parser library, so
  the model takes them as fields: \<open>get_chain u r t\<close> is the list of names from \<open>r\<close> to
  \<open>t\<close>, link and joint names alternating, or \<open>Inl KeyError\<close> when \<open>t\<close> is not below
  \<open>r\<close> (the library walks its parent dictionary and fails on a missing key).
\<close>

record urdf =
  get_root :: string
  get_chain :: "string \<Rightarrow> string \<Rightarrow> error + string list"
  links :: "link list"
  joints :: "joint list"

record urdf_logger =
  urdf_path :: string
  entity_prefix :: string
  urdf_of :: urdf
  root_path :: string

subsection \<open>Python list and string primitives\<close>

text \<open>The slice \<^verbatim>\<open>xs[0::2]\<close>: the elements at the indices 0, 2, 4, ...\<close>

fun slice_0_2 :: "'a list \<Rightarrow> 'a list" where
  "slice_0_2 [] = []"
| "slice_0_2 [x] = [x]"
| "slice_0_2 (x # y # xs) = x # slice_0_2 xs"

text \<open>The slice \<^verbatim>\<open>xs[1::2]\<close>, which the source does not use: the indices 1, 3, 5, ...\<close>

definition slice_1_2 :: "'a list \<Rightarrow> 'a list" where
  "slice_1_2 xs = slice_0_2 (drop 1 xs)"

text \<open>\<^verbatim>\<open>sep.join(xs)\<close>\<close>

fun join :: "string \<Rightarrow> string list \<Rightarrow> string" where
  "join sep [] = []"
| "join sep [x] = x"
| "join sep (x # y # xs) = x @ sep @ join sep (y # xs)"

text \<open>\<^verbatim>\<open>str(i)\<close> for the index of \<^verbatim>\<open>enumerate\<close>, in decimal.\<close>

fun str_nat :: "nat \<Rightarrow> string" where
  "str_nat n =
     (if n < 10 then [''0123456789'' ! n]
      else str_nat (n div 10) @ [''0123456789'' ! (n mod 10)])"

declare str_nat.simps [simp del]

subsection \<open>Entity paths\<close>

definition link_entity_path :: "urdf_logger \<Rightarrow> link \<Rightarrow> error + string" where
  "link_entity_path self l =
     (let root_name = get_root (urdf_of self) in
      case get_chain (urdf_of self) root_name (link_name l) of
        Inl e \<Rightarrow> Inl e
      | Inr chain \<Rightarrow>
          (let link_names = slice_0_2 chain in
           Inr (if entity_prefix self \<noteq> []
                then entity_prefix self @ join ''/'' link_names
                else ''/'' @ join ''/'' link_names)))"

definition joint_entity_path :: "urdf_logger \<Rightarrow> joint \<Rightarrow> error + string" where
  "joint_entity_path self j =
     (let root_name = get_root (urdf_of self) in
      case get_chain (urdf_of self) root_name (joint_child j) of
        Inl e \<Rightarrow> Inl e
      | Inr chain \<Rightarrow>
          (let joint_names = slice_0_2 chain in
           Inr (if entity_prefix self \<noteq> []
                then entity_prefix self @ join ''/'' joint_names
                else ''/'' @ join ''/'' joint_names)))"

subsection \<open>Vectors, quaternions and rotations\<close>

text \<open>
  A numpy 3-vector is either three numbers or the vector whose components are all NaN;
  the same for a quaternion, written in scipy's order (x, y, z, w). The NaN values are
  the only non-finite values that arise here: they come from dividing the zero vector
  by its norm, where each component is 0.0/0.0 (numpy warns and does not raise), and
  every operation below that meets one returns all NaN.
\<close>

datatype vec3 = Vec3 real real real | Vec3_nan

datatype quat = Quat real real real real | Quat_nan

text \<open>
  \<^verbatim>\<open>rr.Transform3D\<close>, with the three components the program sets or reads. The
  constructor without arguments leaves all of them unset.
\<close>

record transform3d =
  translation :: "vec3 option"
  quaternion :: "quat option"
  scale :: "triple option"

definition Transform3D :: transform3d where
  "Transform3D = \<lparr>translation = None, quaternion = None, scale = None\<rparr>"

definition np_array :: "triple \<Rightarrow> vec3" where
  "np_array t = (case t of (x, y, z) \<Rightarrow> Vec3 x y z)"

definition np_linalg_norm :: "triple \<Rightarrow> real" where
  "np_linalg_norm t = (case t of (x, y, z) \<Rightarrow> sqrt (x\<^sup>2 + y\<^sup>2 + z\<^sup>2))"

text \<open>
  \<^verbatim>\<open>axis / np.linalg.norm(axis)\<close>. The norm is zero only for the zero vector, and then
  the quotient is all NaN.
\<close>

definition np_div_norm :: "triple \<Rightarrow> vec3" where
  "np_div_norm axis =
     (case axis of (x, y, z) \<Rightarrow>
        (let n = np_linalg_norm axis in
         if n = 0 then Vec3_nan else Vec3 (x / n) (y / n) (z / n)))"

fun np_scale :: "vec3 \<Rightarrow> real \<Rightarrow> vec3" where
  "np_scale (Vec3 x y z) v = Vec3 (x * v) (y * v) (z * v)"
| "np_scale Vec3_nan v = Vec3_nan"

fun np_add :: "vec3 \<Rightarrow> vec3 \<Rightarrow> vec3" where
  "np_add (Vec3 a b c) (Vec3 x y z) = Vec3 (a + x) (b + y) (c + z)"
| "np_add _ _ = Vec3_nan"

text \<open>
  A scipy \<^verbatim>\<open>Rotation\<close> is represented by the quaternion it stores, so \<^verbatim>\<open>as_quat()\<close> is
  the identity. \<open>compose_quat p q\<close> is the Hamilton product, which scipy computes for
  \<^verbatim>\<open>p * q\<close>.
\<close>

fun compose_quat :: "quat \<Rightarrow> quat \<Rightarrow> quat" where
  "compose_quat (Quat px py pz pw) (Quat qx qy qz qw) =
     Quat (pw * qx + qw * px + (py * qz - pz * qy))
          (pw * qy + qw * py + (pz * qx - px * qz))
          (pw * qz + qw * pz + (px * qy - py * qx))
          (pw * qw - (px * qx + py * qy + pz * qz))"
| "compose_quat _ _ = Quat_nan"

text \<open>
  \<^verbatim>\<open>Rotation.from_quat\<close> on an array of four numbers: it normalises its argument and
  raises \<^verbatim>\<open>ValueError\<close> on a quaternion of norm zero, and on a NaN quaternion as well.
\<close>

fun from_quat :: "quat \<Rightarrow> error + quat" where
  "from_quat (Quat x y z w) =
     (let n = sqrt (x\<^sup>2 + y\<^sup>2 + z\<^sup>2 + w\<^sup>2) in
      if n = 0 then Inl ValueError else Inr (Quat (x / n) (y / n) (z / n) (w / n)))"
| "from_quat Quat_nan = Inl ValueError"

text \<open>\<^verbatim>\<open>r1 * r2\<close>: the product of the quaternions, normalised again by the constructor.\<close>

definition rot_mul :: "quat \<Rightarrow> quat \<Rightarrow> error + quat" where
  "rot_mul p q = from_quat (compose_quat p q)"

text \<open>
  \<^verbatim>\<open>Rotation.from_rotvec\<close>: the angle is the norm of the rotation vector. scipy
  replaces \<open>sin (angle / 2) / angle\<close> by its Taylor polynomial for small angles; the
  model takes the exact function, with its limit at 0.
\<close>

fun from_rotvec :: "vec3 \<Rightarrow> quat" where
  "from_rotvec (Vec3 x y z) =
     (let angle = sqrt (x\<^sup>2 + y\<^sup>2 + z\<^sup>2);
          k = (if angle = 0 then 1 / 2 else sin (angle / 2) / angle)
      in Quat (k * x) (k * y) (k * z) (cos (angle / 2)))"
| "from_rotvec Vec3_nan = Quat_nan"

text \<open>\<^verbatim>\<open>r.apply(v)\<close>: the rotation matrix of the quaternion, times the vector.\<close>

fun rot_apply :: "quat \<Rightarrow> vec3 \<Rightarrow> vec3" where
  "rot_apply (Quat x y z w) (Vec3 a b c) =
     Vec3 ((x\<^sup>2 - y\<^sup>2 - z\<^sup>2 + w\<^sup>2) * a + 2 * (x * y - z * w) * b + 2 * (x * z + y * w) * c)
          (2 * (x * y + z * w) * a + (- x\<^sup>2 + y\<^sup>2 - z\<^sup>2 + w\<^sup>2) * b + 2 * (y * z - x * w) * c)
          (2 * (x * z - y * w) * a + 2 * (y * z + x * w) * b + (- x\<^sup>2 - y\<^sup>2 + z\<^sup>2 + w\<^sup>2) * c)"
| "rot_apply _ _ = Vec3_nan"

text \<open>
  \<^verbatim>\<open>Rotation.from_euler("xyz", angles)\<close>. The axes are given in lower case, which scipy
  reads as extrinsic rotations: about the fixed x axis first, then the fixed y axis,
  then the fixed z axis, so the later rotations multiply from the left.
\<close>

definition elementary_quat :: "char \<Rightarrow> real \<Rightarrow> quat" where
  "elementary_quat ax a =
     (if ax = CHR ''x'' then Quat (sin (a / 2)) 0 0 (cos (a / 2))
      else if ax = CHR ''y'' then Quat 0 (sin (a / 2)) 0 (cos (a / 2))
      else Quat 0 0 (sin (a / 2)) (cos (a / 2)))"

definition from_euler_xyz :: "triple \<Rightarrow> quat" where
  "from_euler_xyz angles =
     (case angles of (a, b, c) \<Rightarrow>
        compose_quat (elementary_quat CHR ''z'' c)
          (compose_quat (elementary_quat CHR ''y'' b) (elementary_quat CHR ''x'' a)))"

subsection \<open>The transform functions\<close>

text \<open>
  A local variable of a Python function is unbound until an assignment runs; reading
  it then raises \<^verbatim>\<open>UnboundLocalError\<close>.
\<close>

datatype 'a local_var = Unbound | Bound 'a

text \<open>
  \<^verbatim>\<open>origin_to_transform\<close> assigns \<^verbatim>\<open>translation\<close> and \<^verbatim>\<open>rotation\<close> only under the two
  tests, and then reads both in \<^verbatim>\<open>translation is not None and rotation is not None\<close>,
  left to right.
\<close>

definition origin_to_transform :: "pose option \<Rightarrow> error + transform3d option" where
  "origin_to_transform origin =
     (case origin of
        None \<Rightarrow> Inr None
      | Some p \<Rightarrow>
          (let translation_v = (if xyz p \<noteq> None then Bound (xyz p) else Unbound);
               rotation_v = (if rpy p \<noteq> None
                             then Bound (map_option from_euler_xyz (rpy p)) else Unbound)
           in case translation_v of
                Unbound \<Rightarrow> Inl UnboundLocalError
              | Bound t \<Rightarrow>
                  if t \<noteq> None
                  then (case rotation_v of
                          Unbound \<Rightarrow> Inl UnboundLocalError
                        | Bound r \<Rightarrow>
                            if r \<noteq> None
                            then Inr (Some \<lparr>translation = map_option np_array t,
                                             quaternion = r, scale = None\<rparr>)
                            else Inr None)
                  else Inr None))"

definition joint_motion_transform :: "joint \<Rightarrow> real \<Rightarrow> transform3d option" where
  "joint_motion_transform j v =
     (let jt = joint_type j;
          axis = (case joint_axis j of Some a \<Rightarrow> a | None \<Rightarrow> (1, 0, 0))
      in if jt = ''revolute'' \<or> jt = ''continuous''
         then (let rot = from_rotvec (np_scale (np_div_norm axis) v)
               in Some (Transform3D\<lparr>quaternion := Some rot\<rparr>))
         else if jt = ''prismatic''
         then (let disp = np_scale (np_div_norm axis) v
               in Some (Transform3D\<lparr>translation := Some disp\<rparr>))
         else Some Transform3D)"

text \<open>
  \<^verbatim>\<open>_compose\<close> reads the components back from its two arguments with
  \<^verbatim>\<open>np.array(t.translation)\<close> and \<^verbatim>\<open>np.array(t.quaternion)\<close> and hands the results to
  numpy and scipy. What a \<^verbatim>\<open>Transform3D\<close> gives back for a component it was built with
  is decided by rerun, which keeps its components in objects of its own, and what numpy
  and scipy do with that is decided by them. The model takes these library calls as
  parameters, each one that may raise with a result in \<open>error + _\<close>:
  \<^item> \<open>translation_array L t\<close> is \<open>None\<close> when \<^verbatim>\<open>getattr(t, "translation", None)\<close> is
    \<^verbatim>\<open>None\<close>, and else the value of \<^verbatim>\<open>np.array(t.translation)\<close>; the same for
    \<open>quaternion_array\<close>;
  \<^item> \<open>np_zeros_3\<close> is \<^verbatim>\<open>np.zeros(3)\<close> and \<open>np_array_4 L x y z w\<close> is
    \<^verbatim>\<open>np.array([x, y, z, w])\<close>;
  \<^item> \<open>Rotation_from_quat\<close>, \<open>Rotation_mul\<close>, \<open>Rotation_apply\<close> and \<open>Rotation_as_quat\<close>
    are \<^verbatim>\<open>Rotation.from_quat\<close>, \<^verbatim>\<open>r1 * r2\<close>, \<^verbatim>\<open>r.apply(v)\<close> and \<^verbatim>\<open>r.as_quat()\<close>,
    and \<open>np_add_arrays\<close> is the sum of two arrays;
  \<^item> \<open>Transform3D_of L t q\<close> is \<^verbatim>\<open>rr.Transform3D(translation=t, quaternion=q)\<close>.
\<close>

record ('v, 'q, 'r) numlib =
  translation_array :: "transform3d \<Rightarrow> 'v option"
  quaternion_array :: "transform3d \<Rightarrow> 'q option"
  np_zeros_3 :: 'v
  np_array_4 :: "real \<Rightarrow> real \<Rightarrow> real \<Rightarrow> real \<Rightarrow> 'q"
  Rotation_from_quat :: "'q \<Rightarrow> error + 'r"
  Rotation_mul :: "'r \<Rightarrow> 'r \<Rightarrow> error + 'r"
  Rotation_apply :: "'r \<Rightarrow> 'v \<Rightarrow> error + 'v"
  Rotation_as_quat :: "'r \<Rightarrow> 'q"
  np_add_arrays :: "'v \<Rightarrow> 'v \<Rightarrow> error + 'v"
  Transform3D_of :: "'v \<Rightarrow> 'q \<Rightarrow> transform3d"

definition compose ::
  "('v, 'q, 'r) numlib \<Rightarrow> transform3d option \<Rightarrow> transform3d option
   \<Rightarrow> error + transform3d option" where
  "compose L t1 t2 =
     (case t1 of
        None \<Rightarrow> Inr t2
      | Some a \<Rightarrow>
          (case t2 of
             None \<Rightarrow> Inr t1
           | Some b \<Rightarrow>
               (let trans1 = (case translation_array L a of Some v \<Rightarrow> v | None \<Rightarrow> np_zeros_3 L);
                    trans2 = (case translation_array L b of Some v \<Rightarrow> v | None \<Rightarrow> np_zeros_3 L);
                    quat1 = (case quaternion_array L a of
                               Some q \<Rightarrow> q | None \<Rightarrow> np_array_4 L 0 0 0 1);
                    quat2 = (case quaternion_array L b of
                               Some q \<Rightarrow> q | None \<Rightarrow> np_array_4 L 0 0 0 1)
                in case Rotation_from_quat L quat1 of
                     Inl e \<Rightarrow> Inl e
                   | Inr r1 \<Rightarrow>
                       (case Rotation_from_quat L quat2 of
                          Inl e \<Rightarrow> Inl e
                        | Inr r2 \<Rightarrow>
                            (case Rotation_mul L r1 r2 of
                               Inl e \<Rightarrow> Inl e
                             | Inr r \<Rightarrow>
                                 (case Rotation_apply L r1 trans2 of
                                    Inl e \<Rightarrow> Inl e
                                  | Inr rotated \<Rightarrow>
                                      (case np_add_arrays L trans1 rotated of
                                         Inl e \<Rightarrow> Inl e
                                       | Inr composed_t \<Rightarrow>
                                           Inr (Some (Transform3D_of L composed_t
                                                        (Rotation_as_quat L r))))))))))"

text \<open>
  The libraries as the source takes them to be: a transform gives back the numbers it
  was built with, and the operations are those of the section on vectors and
  quaternions.
\<close>

definition plain_numlib :: "(vec3, quat, quat) numlib" where
  "plain_numlib = \<lparr>
     translation_array = translation,
     quaternion_array = quaternion,
     np_zeros_3 = Vec3 0 0 0,
     np_array_4 = Quat,
     Rotation_from_quat = from_quat,
     Rotation_mul = rot_mul,
     Rotation_apply = (\<lambda>r v. Inr (rot_apply r v)),
     Rotation_as_quat = (\<lambda>r. r),
     np_add_arrays = (\<lambda>u v. Inr (np_add u v)),
     Transform3D_of = (\<lambda>t q. \<lparr>translation = Some t, quaternion = Some q, scale = None\<rparr>)\<rparr>"

subsection \<open>Meshes, the scene sink and the loaders\<close>

datatype image = Image string

datatype colors = File_colors "rgba list" | Uniform_color rgba

datatype mesh_visual = ColorVisuals colors | TextureVisuals "image option"

record trimesh =
  vertices :: "triple list"
  faces :: "(nat \<times> nat \<times> nat) list"
  vertex_normals :: "triple list"
  visual_of :: mesh_visual

datatype mesh_or_scene = Trimesh trimesh | Scene "trimesh list"

record mesh3d =
  vertex_positions :: "triple list"
  triangle_indices :: "(nat \<times> nat \<times> nat) list"
  mesh_vertex_normals :: "triple list"
  vertex_colors :: "colors option"
  albedo_texture :: "image option"
  vertex_texcoords :: "(real \<times> real) list option"

type_synonym mat3 = "triple \<times> triple \<times> triple"

datatype payload = Transform transform3d | Mesh3D mesh3d | Matrix mat3

text \<open>One call \<^verbatim>\<open>rr.log(entity_path, payload, static=...)\<close>.\<close>

datatype rr_call = Rr_log string payload bool

text \<open>
  What the program does to the outside: the calls of \<^verbatim>\<open>rr.log\<close> in order, the paths
  handed to \<^verbatim>\<open>trimesh.load_mesh\<close> and \<^verbatim>\<open>Image.open\<close> in order, and the number of
  rotations drawn from scipy's random generator.
\<close>

record world =
  rr_calls :: "rr_call list"
  loader_calls :: "string list"
  rng_draws :: nat

text \<open>
  The libraries the program calls: the mesh loader, the image loader, the path join of
  \<^verbatim>\<open>pathlib\<close>, and the matrix of the k-th rotation that \<^verbatim>\<open>Rotation.random()\<close> draws.
\<close>

record env =
  load_mesh :: "string \<Rightarrow> error + mesh_or_scene"
  image_open :: "string \<Rightarrow> error + image"
  path_join :: "string \<Rightarrow> string \<Rightarrow> string"
  random_matrix :: "nat \<Rightarrow> mat3"

definition rr_log :: "string \<Rightarrow> payload \<Rightarrow> bool \<Rightarrow> world \<Rightarrow> world" where
  "rr_log entity_path x static w = w\<lparr>rr_calls := rr_calls w @ [Rr_log entity_path x static]\<rparr>"

definition loader_call :: "string \<Rightarrow> world \<Rightarrow> world" where
  "loader_call path w = w\<lparr>loader_calls := loader_calls w @ [path]\<rparr>"

subsection \<open>Logging\<close>

definition log_trimesh ::
  "string \<Rightarrow> trimesh \<Rightarrow> transform3d option \<Rightarrow> world \<Rightarrow> (error + unit) \<times> world" where
  "log_trimesh entity_path mesh transform w =
     (case visual_of mesh of
        ColorVisuals cs \<Rightarrow>
          (let w1 = rr_log entity_path
                      (Mesh3D \<lparr>vertex_positions = vertices mesh,
                               triangle_indices = faces mesh,
                               mesh_vertex_normals = vertex_normals mesh,
                               vertex_colors = Some cs,
                               albedo_texture = None,
                               vertex_texcoords = None\<rparr>) True w
           in case transform of
                Some t \<Rightarrow> (Inr (), rr_log entity_path (Transform t) True w1)
              | None \<Rightarrow> (Inr (), w1))
      | TextureVisuals _ \<Rightarrow> (Inl (NotImplementedError ''Only color visuals are supported.''), w))"

definition is_TextureVisuals :: "mesh_visual \<Rightarrow> bool" where
  "is_TextureVisuals mv = (case mv of TextureVisuals _ \<Rightarrow> True | ColorVisuals _ \<Rightarrow> False)"

definition log_visual ::
  "urdf_logger \<Rightarrow> env \<Rightarrow> string \<Rightarrow> visual \<Rightarrow> world \<Rightarrow> (error + unit) \<times> world" where
  "log_visual self ev entity_path vis w =
     (let mat = visual_material vis in
      case origin_to_transform (visual_origin vis) of
        Inl e \<Rightarrow> (Inl e, w)
      | Inr transform \<Rightarrow>
          (case visual_geometry vis of
             Mesh filename mesh_scale \<Rightarrow>
               (let resolved_path = path_join ev (root_path self) filename;
                    w1 = loader_call resolved_path w
                in case load_mesh ev resolved_path of
                     Inl e \<Rightarrow> (Inl e, w1)
                   | Inr mesh_or_scene \<Rightarrow>
                       (let transform1 =
                              (case mesh_scale of
                                 Some s \<Rightarrow>
                                   (case transform of
                                      Some t \<Rightarrow> Some (t\<lparr>scale := Some s\<rparr>)
                                    | None \<Rightarrow> Some (Transform3D\<lparr>scale := Some s\<rparr>))
                               | None \<Rightarrow> transform)
                        in case mesh_or_scene of
                             Trimesh mesh \<Rightarrow>
                               (case mat of
                                  None \<Rightarrow> log_trimesh entity_path mesh transform1 w1
                                | Some m \<Rightarrow>
                                    if is_TextureVisuals (visual_of mesh)
                                    then log_trimesh entity_path mesh transform1 w1
                                    else (case color m of
                                            Some c \<Rightarrow>
                                              log_trimesh entity_path
                                                (mesh\<lparr>visual_of := ColorVisuals (Uniform_color c)\<rparr>)
                                                transform1 w1
                                          | None \<Rightarrow>
                                              (case texture m of
                                                 Some texture_filename \<Rightarrow>
                                                   (let texture_path =
                                                          path_join ev (root_path self) texture_filename;
                                                        w2 = loader_call texture_path w1
                                                    in case image_open ev texture_path of
                                                         Inl e \<Rightarrow> (Inl e, w2)
                                                       | Inr img \<Rightarrow>
                                                           log_trimesh entity_path
                                                             (mesh\<lparr>visual_of := TextureVisuals (Some img)\<rparr>)
                                                             transform1 w2)
                                               | None \<Rightarrow>
                                                   log_trimesh entity_path mesh transform1 w1)))
                           | Scene _ \<Rightarrow>
                               (Inl (NotImplementedError
                                       ''Only single mesh geometries are supported.''), w1)))
           | _ \<Rightarrow> (Inl (NotImplementedError ''Only mesh geometries are supported.''), w)))"

text \<open>The loop of \<^verbatim>\<open>log_link\<close> over \<^verbatim>\<open>enumerate(link.visuals)\<close>, from the index \<open>i\<close>.\<close>

fun log_visuals ::
  "urdf_logger \<Rightarrow> env \<Rightarrow> string \<Rightarrow> nat \<Rightarrow> visual list \<Rightarrow> world \<Rightarrow> (error + unit) \<times> world" where
  "log_visuals self ev entity_path i [] w = (Inr (), w)"
| "log_visuals self ev entity_path i (vis # rest) w =
     (case log_visual self ev (entity_path @ ''/visual_'' @ str_nat i) vis w of
        (Inl e, w1) \<Rightarrow> (Inl e, w1)
      | (Inr _, w1) \<Rightarrow> log_visuals self ev entity_path (Suc i) rest w1)"

definition log_link ::
  "urdf_logger \<Rightarrow> env \<Rightarrow> string \<Rightarrow> link \<Rightarrow> world \<Rightarrow> (error + unit) \<times> world" where
  "log_link self ev entity_path l w = log_visuals self ev entity_path 0 (visuals l) w"

definition log_joint :: "string \<Rightarrow> joint \<Rightarrow> world \<Rightarrow> (error + unit) \<times> world" where
  "log_joint entity_path j w =
     (case origin_to_transform (joint_origin j) of
        Inl e \<Rightarrow> (Inl e, w)
      | Inr transform \<Rightarrow>
          (case transform of
             Some t \<Rightarrow> (Inr (), rr_log entity_path (Transform t) False w)
           | None \<Rightarrow> (Inr (), w)))"

text \<open>The three loops of \<^verbatim>\<open>log\<close>; an exception ends the loop and the call.\<close>

fun log_joints :: "urdf_logger \<Rightarrow> joint list \<Rightarrow> world \<Rightarrow> (error + unit) \<times> world" where
  "log_joints self [] w = (Inr (), w)"
| "log_joints self (j # js) w =
     (case joint_entity_path self j of
        Inl e \<Rightarrow> (Inl e, w)
      | Inr entity_path \<Rightarrow>
          (case log_joint entity_path j w of
             (Inl e, w1) \<Rightarrow> (Inl e, w1)
           | (Inr _, w1) \<Rightarrow> log_joints self js w1))"

fun log_links :: "urdf_logger \<Rightarrow> env \<Rightarrow> link list \<Rightarrow> world \<Rightarrow> (error + unit) \<times> world" where
  "log_links self ev [] w = (Inr (), w)"
| "log_links self ev (l # ls) w =
     (case link_entity_path self l of
        Inl e \<Rightarrow> (Inl e, w)
      | Inr entity_path \<Rightarrow>
          (case log_link self ev entity_path l w of
             (Inl e, w1) \<Rightarrow> (Inl e, w1)
           | (Inr _, w1) \<Rightarrow> log_links self ev ls w1))"

fun log_random_joints ::
  "urdf_logger \<Rightarrow> env \<Rightarrow> joint list \<Rightarrow> world \<Rightarrow> (error + unit) \<times> world" where
  "log_random_joints self ev [] w = (Inr (), w)"
| "log_random_joints self ev (j # js) w =
     (let R_rand = random_matrix ev (rng_draws w);
          w1 = w\<lparr>rng_draws := Suc (rng_draws w)\<rparr>
      in case joint_entity_path self j of
           Inl e \<Rightarrow> (Inl e, w1)
         | Inr entity_path \<Rightarrow>
             log_random_joints self ev js (rr_log entity_path (Matrix R_rand) False w1))"

definition log :: "urdf_logger \<Rightarrow> env \<Rightarrow> string \<Rightarrow> world \<Rightarrow> (error + unit) \<times> world" where
  "log self ev joint_stats w =
     (if joint_stats = ''Original''
      then (case log_joints self (joints (urdf_of self)) w of
              (Inl e, w1) \<Rightarrow> (Inl e, w1)
            | (Inr _, w1) \<Rightarrow> log_links self ev (links (urdf_of self)) w1)
      else log_random_joints self ev (joints (urdf_of self)) w)"

subsection \<open>Notions of the specification\<close>

text \<open>
  The shape of a chain: the root, then one (joint, link) pair for each step down the
  tree.
\<close>

definition chain_of :: "string \<Rightarrow> (string \<times> string) list \<Rightarrow> string list" where
  "chain_of r steps = r # concat (map (\<lambda>(j, n). [j, n]) steps)"

text \<open>What the specification asks of a path: a prefix, or a leading slash.\<close>

definition prefixed :: "string \<Rightarrow> string list \<Rightarrow> string" where
  "prefixed pre names = (if pre = [] then ''/'' else pre) @ join ''/'' names"

fun unit_quat :: "quat \<Rightarrow> bool" where
  "unit_quat (Quat x y z w) = (x\<^sup>2 + y\<^sup>2 + z\<^sup>2 + w\<^sup>2 = 1)"
| "unit_quat Quat_nan = False"

text \<open>The normalised axis, and the unit quaternion of a rotation by \<open>v\<close> about a unit axis.\<close>

definition unit_vector :: "triple \<Rightarrow> triple" where
  "unit_vector a =
     (case a of (x, y, z) \<Rightarrow>
        (x / sqrt (x\<^sup>2 + y\<^sup>2 + z\<^sup>2), y / sqrt (x\<^sup>2 + y\<^sup>2 + z\<^sup>2),
         z / sqrt (x\<^sup>2 + y\<^sup>2 + z\<^sup>2)))"

definition axis_angle_quat :: "triple \<Rightarrow> real \<Rightarrow> quat" where
  "axis_angle_quat n v =
     (case n of (x, y, z) \<Rightarrow>
        Quat (x * sin (v / 2)) (y * sin (v / 2)) (z * sin (v / 2)) (cos (v / 2)))"

text \<open>
  Intrinsic X-Y-Z Euler angles (scipy's \<^verbatim>\<open>"XYZ"\<close>): each rotation is about the axis as
  the earlier ones have moved it, so the later rotations multiply from the right.
\<close>

definition intrinsic_XYZ :: "triple \<Rightarrow> quat" where
  "intrinsic_XYZ angles =
     (case angles of (a, b, c) \<Rightarrow>
        compose_quat (compose_quat (elementary_quat CHR ''x'' a) (elementary_quat CHR ''y'' b))
          (elementary_quat CHR ''z'' c))"

text \<open>An origin that is absent, or has both its fields.\<close>

definition complete_origin :: "pose option \<Rightarrow> bool" where
  "complete_origin origin =
     (case origin of None \<Rightarrow> True | Some p \<Rightarrow> xyz p \<noteq> None \<and> rpy p \<noteq> None)"

definition is_Mesh :: "geometry \<Rightarrow> bool" where
  "is_Mesh g = (case g of Mesh _ _ \<Rightarrow> True | _ \<Rightarrow> False)"

text \<open>The point that a transform with translation \<open>t\<close> and rotation \<open>q\<close> sends \<open>p\<close> to.\<close>

definition transform_point :: "vec3 \<Rightarrow> quat \<Rightarrow> vec3 \<Rightarrow> vec3" where
  "transform_point t q p = np_add t (rot_apply q p)"

subsection \<open>A small model\<close>

text \<open>
  Three links: \<open>base\<close>, \<open>arm\<close> below it through the joint \<open>shoulder\<close>, and \<open>hand\<close>
  below \<open>arm\<close> through the joint \<open>wrist\<close>, whose origin has a translation only.
\<close>

definition arm_chain :: "string \<Rightarrow> string \<Rightarrow> error + string list" where
  "arm_chain r t =
     (if r = ''base'' \<and> t = ''base'' then Inr [''base'']
      else if r = ''base'' \<and> t = ''arm'' then Inr [''base'', ''shoulder'', ''arm'']
      else if r = ''base'' \<and> t = ''hand''
      then Inr [''base'', ''shoulder'', ''arm'', ''wrist'', ''hand'']
      else Inl KeyError)"

definition shoulder :: joint where
  "shoulder = \<lparr>joint_name = ''shoulder'', joint_type = ''revolute'', joint_child = ''arm'',
     joint_axis = Some (0, 0, 1), joint_origin = None\<rparr>"

definition wrist :: joint where
  "wrist = \<lparr>joint_name = ''wrist'', joint_type = ''prismatic'', joint_child = ''hand'',
     joint_axis = None, joint_origin = Some \<lparr>xyz = Some (0, 0, 1), rpy = None\<rparr>\<rparr>"

definition base_link :: link where
  "base_link = \<lparr>link_name = ''base'', visuals = []\<rparr>"

definition arm_link :: link where
  "arm_link = \<lparr>link_name = ''arm'', visuals = []\<rparr>"

definition hand_link :: link where
  "hand_link = \<lparr>link_name = ''hand'', visuals = []\<rparr>"

definition arm_urdf :: urdf where
  "arm_urdf = \<lparr>get_root = ''base'', get_chain = arm_chain,
     links = [base_link, arm_link, hand_link], joints = [shoulder, wrist]\<rparr>"

definition arm_logger :: "string \<Rightarrow> urdf_logger" where
  "arm_logger pre = \<lparr>urdf_path = ''arm.urdf'', entity_prefix = pre, urdf_of = arm_urdf,
     root_path = ''.''\<rparr>"

definition triangle :: trimesh where
  "triangle = \<lparr>vertices = [(0, 0, 0), (1, 0, 0), (0, 1, 0)], faces = [(0, 1, 2)],
     vertex_normals = [(0, 0, 1), (0, 0, 1), (0, 0, 1)],
     visual_of = ColorVisuals (File_colors [])\<rparr>"

definition arm_env :: env where
  "arm_env = \<lparr>
     load_mesh = (\<lambda>p. if p = ''./arm.stl'' then Inr (Trimesh triangle)
                      else if p = ''./hand.glb'' then Inr (Scene [triangle, triangle])
                      else Inl IOError),
     image_open = (\<lambda>p. Inr (Image p)),
     path_join = (\<lambda>d f. d @ ''/'' @ f),
     random_matrix = (\<lambda>k. ((cos (real k), - sin (real k), 0), (sin (real k), cos (real k), 0),
                            (0, 0, 1)))\<rparr>"

definition world0 :: world where
  "world0 = \<lparr>rr_calls = [], loader_calls = [], rng_draws = 0\<rparr>"

definition wood :: material where
  "wood = \<lparr>color = None, texture = Some ''wood.png''\<rparr>"

definition hand_visual :: visual where
  "hand_visual = \<lparr>visual_origin = None, visual_geometry = Mesh ''hand.glb'' None,
     visual_material = Some wood\<rparr>"

definition arm_visual :: visual where
  "arm_visual = \<lparr>visual_origin = None, visual_geometry = Mesh ''arm.stl'' None,
     visual_material = Some wood\<rparr>"

definition box_visual :: visual where
  "box_visual = \<lparr>visual_origin = Some \<lparr>xyz = Some (1, 0, 0), rpy = None\<rparr>,
     visual_geometry = Box (1, 1, 1), visual_material = None\<rparr>"

section \<open>Entity paths\<close>

lemma slice_0_2_chain_of: "slice_0_2 (chain_of r steps) = r # map snd steps"
  unfolding chain_of_def by (induction steps arbitrary: r) (auto)

lemma slice_1_2_chain_of: "slice_1_2 (chain_of r steps) = map fst steps"
  unfolding chain_of_def slice_1_2_def
proof (induction steps)
  case Nil
  show ?case by simp
next
  case (Cons s steps)
  obtain j n where s: "s = (j, n)" by (cases s)
  show ?case
  proof (cases steps)
    case Nil
    with s show ?thesis by simp
  next
    case (Cons s' rest)
    with s Cons.IH show ?thesis by (cases s') simp
  qed
qed

lemma slice_0_2_nth:
  "slice_0_2 xs = map (\<lambda>i. xs ! (2 * i)) [0 ..< (length xs + 1) div 2]"
proof (induction xs rule: slice_0_2.induct)
  case 1
  show ?case by simp
next
  case (2 x)
  show ?case by simp
next
  case (3 x y xs)
  have "[0 ..< (length (x # y # xs) + 1) div 2] = 0 # map Suc [0 ..< (length xs + 1) div 2]"
    by (simp add: upt_conv_Cons map_Suc_upt del: upt_Suc)
  with 3 show ?case by (simp add: comp_def del: upt_Suc)
qed

text \<open>
  C7. For a link whose chain from the root is found, \<open>link_entity_path\<close> is the link
  names of the chain (its even positions), joined with a slash, behind the configured
  prefix when that is not empty and behind a slash otherwise. The path is a function of
  the prefix, the root and the chain lookup alone: a logger that agrees on these gives
  the same path for a link of the same name, whatever its joints, origins and visuals.
\<close>

theorem link_entity_path_chain:
  assumes "get_chain (urdf_of self) (get_root (urdf_of self)) (link_name l)
             = Inr (chain_of r steps)"
    and "entity_prefix self' = entity_prefix self"
    and "get_root (urdf_of self') = get_root (urdf_of self)"
    and "get_chain (urdf_of self') = get_chain (urdf_of self)"
    and "link_name l' = link_name l"
  shows "link_entity_path self l = Inr (prefixed (entity_prefix self) (r # map snd steps))
       \<and> link_entity_path self' l' = link_entity_path self l"
  using assms by (simp add: link_entity_path_def prefixed_def slice_0_2_chain_of)

theorem link_entity_path_chain_witness:
  "link_entity_path (arm_logger ''xx'') arm_link = Inr ''xxbase/arm''
   \<and> link_entity_path (arm_logger []) arm_link = Inr ''/base/arm''
   \<and> link_entity_path (arm_logger ''xx'')
        \<lparr>link_name = ''arm'', visuals = [\<lparr>visual_origin = None,
           visual_geometry = Sphere 1, visual_material = None\<rparr>]\<rparr>
      = link_entity_path (arm_logger ''xx'') arm_link"
  using link_entity_path_chain [of "arm_logger ''xx''" arm_link "''base''"
      "[(''shoulder'', ''arm'')]" "arm_logger ''xx''"
      "\<lparr>link_name = ''arm'', visuals = [\<lparr>visual_origin = None,
           visual_geometry = Sphere 1, visual_material = None\<rparr>]\<rparr>"]
    link_entity_path_chain [of "arm_logger []" arm_link "''base''"
      "[(''shoulder'', ''arm'')]" "arm_logger []" arm_link]
  by (simp add: arm_logger_def arm_urdf_def arm_chain_def arm_link_def chain_of_def
      prefixed_def)

text \<open>
  C1. The joint path is built from the same slice \<^verbatim>\<open>[0::2]\<close> as the link path, so it
  holds the link names of the chain to the joint's child, not the joint names: for the
  joint \<open>shoulder\<close> of the small model, without a prefix, it is \<open>/base/arm\<close>, where the
  joint names of the chain give \<open>/shoulder\<close>.
\<close>

theorem joint_entity_path_arm:
  "joint_entity_path (arm_logger []) shoulder = Inr ''/base/arm''
   \<and> get_chain arm_urdf ''base'' (joint_child shoulder)
       = Inr (chain_of ''base'' [(''shoulder'', ''arm'')])
   \<and> prefixed [] (slice_1_2 (chain_of ''base'' [(''shoulder'', ''arm'')])) = ''/shoulder''
   \<and> joint_entity_path (arm_logger []) shoulder \<noteq> Inr ''/shoulder''"
  by (simp add: joint_entity_path_def arm_logger_def arm_urdf_def arm_chain_def
      shoulder_def chain_of_def prefixed_def slice_1_2_def)

text \<open>In general the joint path of the source is the link path of the joint's child.\<close>

lemma joint_entity_path_is_link_path:
  "link_name l = joint_child j \<Longrightarrow> joint_entity_path self j = link_entity_path self l"
  by (simp add: joint_entity_path_def link_entity_path_def)

section \<open>Quaternion arithmetic\<close>

lemma from_quat_unit: "unit_quat q \<Longrightarrow> from_quat q = Inr q"
  by (cases q) simp_all

lemma compose_quat_norm:
  "(pw * qx + qw * px + (py * qz - pz * qy))\<^sup>2 + (pw * qy + qw * py + (pz * qx - px * qz))\<^sup>2
   + (pw * qz + qw * pz + (px * qy - py * qx))\<^sup>2 + (pw * qw - (px * qx + py * qy + pz * qz))\<^sup>2
   = (px\<^sup>2 + py\<^sup>2 + pz\<^sup>2 + pw\<^sup>2) * (qx\<^sup>2 + qy\<^sup>2 + qz\<^sup>2 + qw\<^sup>2)"
  for px :: real
  by (simp add: power2_eq_square algebra_simps)

lemma compose_quat_unit: "unit_quat p \<Longrightarrow> unit_quat q \<Longrightarrow> unit_quat (compose_quat p q)"
  by (cases p; cases q) (simp_all add: compose_quat_norm)

lemma rot_mul_unit: "unit_quat p \<Longrightarrow> unit_quat q \<Longrightarrow> rot_mul p q = Inr (compose_quat p q)"
  unfolding rot_mul_def by (rule from_quat_unit) (rule compose_quat_unit)

lemma elementary_quat_unit: "unit_quat (elementary_quat ax a)"
  by (simp add: elementary_quat_def)

lemma from_euler_xyz_unit: "unit_quat (from_euler_xyz r)"
  by (cases r) (simp add: from_euler_xyz_def compose_quat_unit elementary_quat_unit)

lemma unit_scaled_norm:
  fixes x y z v :: real
  assumes "sqrt (x\<^sup>2 + y\<^sup>2 + z\<^sup>2) \<noteq> 0"
  shows "(x / sqrt (x\<^sup>2 + y\<^sup>2 + z\<^sup>2) * v)\<^sup>2 + (y / sqrt (x\<^sup>2 + y\<^sup>2 + z\<^sup>2) * v)\<^sup>2
         + (z / sqrt (x\<^sup>2 + y\<^sup>2 + z\<^sup>2) * v)\<^sup>2 = v\<^sup>2"
proof -
  let ?s = "x\<^sup>2 + y\<^sup>2 + z\<^sup>2"
  have nn: "0 \<le> ?s" by simp
  from assms have pos: "?s \<noteq> 0" by auto
  have sq: "(sqrt ?s)\<^sup>2 = ?s" using nn by simp
  have "(x / sqrt ?s * v)\<^sup>2 + (y / sqrt ?s * v)\<^sup>2 + (z / sqrt ?s * v)\<^sup>2
        = (x\<^sup>2 + y\<^sup>2 + z\<^sup>2) * v\<^sup>2 / (sqrt ?s)\<^sup>2"
    by (simp add: power_mult_distrib power_divide add_divide_distrib distrib_right)
  also have "\<dots> = v\<^sup>2" using pos sq by simp
  finally show ?thesis .
qed

lemma half_angle_scale:
  fixes v :: real
  assumes "v \<noteq> 0"
  shows "sin (\<bar>v\<bar> / 2) / \<bar>v\<bar> * (c * v) = c * sin (v / 2)"
proof (cases "0 < v")
  case True
  then show ?thesis by simp
next
  case False
  with assms have neg: "v < 0" by simp
  then have "\<bar>v\<bar> = - v" by simp
  then have "sin (\<bar>v\<bar> / 2) / \<bar>v\<bar> * (c * v) = sin (- (v / 2)) / (- v) * (c * v)" by simp
  also have "\<dots> = c * sin (v / 2)" using neg by simp
  finally show ?thesis .
qed

text \<open>
  The rotation vector of the source, the normalised axis times the value, gives the
  unit quaternion of the rotation by that value about that axis, for a value of either
  sign.
\<close>

lemma from_rotvec_unit_axis:
  assumes "np_linalg_norm a \<noteq> 0"
  shows "from_rotvec (np_scale (np_div_norm a) v) = axis_angle_quat (unit_vector a) v"
proof -
  obtain x y z where a: "a = (x, y, z)" by (cases a)
  let ?n = "sqrt (x\<^sup>2 + y\<^sup>2 + z\<^sup>2)"
  from assms a have n0: "?n \<noteq> 0" by (simp add: np_linalg_norm_def)
  have ang: "sqrt ((x / ?n * v)\<^sup>2 + (y / ?n * v)\<^sup>2 + (z / ?n * v)\<^sup>2) = \<bar>v\<bar>"
    using unit_scaled_norm [OF n0, of v] by simp
  have cs: "cos (\<bar>v\<bar> / 2) = cos (v / 2)"
    by (cases "0 \<le> v") (simp_all add: abs_if)
  show ?thesis
  proof (cases "v = 0")
    case True
    with a n0 show ?thesis
      by (simp add: np_div_norm_def np_linalg_norm_def unit_vector_def axis_angle_quat_def
          Let_def)
  next
    case False
    have "from_rotvec (np_scale (np_div_norm a) v)
          = from_rotvec (Vec3 (x / ?n * v) (y / ?n * v) (z / ?n * v))"
      using a n0 by (simp add: np_div_norm_def np_linalg_norm_def Let_def)
    also have "\<dots> = Quat (sin (\<bar>v\<bar> / 2) / \<bar>v\<bar> * (x / ?n * v))
                          (sin (\<bar>v\<bar> / 2) / \<bar>v\<bar> * (y / ?n * v))
                          (sin (\<bar>v\<bar> / 2) / \<bar>v\<bar> * (z / ?n * v)) (cos (\<bar>v\<bar> / 2))"
      using False by (simp only: from_rotvec.simps ang Let_def) simp
    also have "\<dots> = Quat (x / ?n * sin (v / 2)) (y / ?n * sin (v / 2)) (z / ?n * sin (v / 2))
                          (cos (v / 2))"
      by (simp only: half_angle_scale [OF False] cs)
    also have "\<dots> = axis_angle_quat (unit_vector a) v"
      using a by (simp add: unit_vector_def axis_angle_quat_def)
    finally show ?thesis .
  qed
qed

lemma axis_angle_quat_unit:
  assumes "np_linalg_norm a \<noteq> 0"
  shows "unit_quat (axis_angle_quat (unit_vector a) v)"
proof -
  obtain x y z where a: "a = (x, y, z)" by (cases a)
  let ?n = "sqrt (x\<^sup>2 + y\<^sup>2 + z\<^sup>2)"
  from assms a have n0: "?n \<noteq> 0" by (simp add: np_linalg_norm_def)
  have "(x / ?n * sin (v / 2))\<^sup>2 + (y / ?n * sin (v / 2))\<^sup>2 + (z / ?n * sin (v / 2))\<^sup>2
        = (sin (v / 2))\<^sup>2"
    by (rule unit_scaled_norm [OF n0])
  then show ?thesis using a by (simp add: unit_vector_def axis_angle_quat_def)
qed

lemma rot_apply_compose_quat:
  "rot_apply (compose_quat p q) u = rot_apply p (rot_apply q u)"
proof (cases p; cases q; cases u)
  fix px py pz pw qx qy qz qw a b c
  assume "p = Quat px py pz pw" "q = Quat qx qy qz qw" "u = Vec3 a b c"
  then show ?thesis
    by (simp add: power2_eq_square algebra_simps)
qed simp_all

lemma euler_orders_differ:
  "from_euler_xyz (pi / 2, pi / 2, 0) = Quat (1 / 2) (1 / 2) (- (1 / 2)) (1 / 2)
   \<and> intrinsic_XYZ (pi / 2, pi / 2, 0) = Quat (1 / 2) (1 / 2) (1 / 2) (1 / 2)"
  by (simp add: from_euler_xyz_def intrinsic_XYZ_def elementary_quat_def sin_45 cos_45)

section \<open>The transform functions\<close>

text \<open>
  C2, as the code has it. \<open>origin_to_transform\<close> returns no transform for an absent
  origin. For an origin with both fields it returns a transform with that translation
  and with the roll-pitch-yaw angles converted to a unit quaternion, taken as extrinsic
  rotations about the fixed x, y and z axes in this order. Whenever it returns a
  transform, the origin is present and has both fields.
\<close>

theorem origin_to_transform_cases:
  "origin_to_transform None = Inr None
   \<and> (xyz p = Some t \<and> rpy p = Some r \<longrightarrow>
        origin_to_transform (Some p) =
          Inr (Some \<lparr>translation = Some (np_array t), quaternion = Some (from_euler_xyz r),
                     scale = None\<rparr>)
        \<and> unit_quat (from_euler_xyz r))
   \<and> (origin_to_transform origin = Inr (Some T) \<longrightarrow>
        (\<exists>p'. origin = Some p' \<and> xyz p' \<noteq> None \<and> rpy p' \<noteq> None))"
proof -
  have both: "xyz p = Some t \<and> rpy p = Some r \<longrightarrow>
        origin_to_transform (Some p) =
          Inr (Some \<lparr>translation = Some (np_array t), quaternion = Some (from_euler_xyz r),
                     scale = None\<rparr>)
        \<and> unit_quat (from_euler_xyz r)"
    by (simp add: origin_to_transform_def from_euler_xyz_unit)
  have only: "origin_to_transform origin = Inr (Some T) \<longrightarrow>
        (\<exists>p'. origin = Some p' \<and> xyz p' \<noteq> None \<and> rpy p' \<noteq> None)"
    by (cases origin) (auto simp: origin_to_transform_def split: if_splits)
  show ?thesis
    using both only by (simp add: origin_to_transform_def)
qed

theorem origin_to_transform_cases_witness:
  "xyz \<lparr>xyz = Some (1, 2, 3), rpy = Some (0, 0, 0)\<rparr> = Some (1, 2, 3)
   \<and> rpy \<lparr>xyz = Some (1, 2, 3), rpy = Some (0, 0, 0)\<rparr> = Some (0, 0, 0)
   \<and> origin_to_transform (Some \<lparr>xyz = Some (1, 2, 3), rpy = Some (0, 0, 0)\<rparr>) =
       Inr (Some \<lparr>translation = Some (Vec3 1 2 3), quaternion = Some (Quat 0 0 0 1),
                  scale = None\<rparr>)"
  using origin_to_transform_cases [of "\<lparr>xyz = Some (1, 2, 3), rpy = Some (0, 0, 0)\<rparr>"
      "(1, 2, 3)" "(0, 0, 0)" "Some \<lparr>xyz = Some (1, 2, 3), rpy = Some (0, 0, 0)\<rparr>"
      "\<lparr>translation = Some (Vec3 1 2 3), quaternion = Some (Quat 0 0 0 1), scale = None\<rparr>"]
  by (simp add: np_array_def from_euler_xyz_def elementary_quat_def)

text \<open>
  C2 as stated fails. An origin with a translation and no rotation is not converted to
  a transform: the read of the unassigned \<^verbatim>\<open>rotation\<close> raises, as does the read of
  \<^verbatim>\<open>translation\<close> for an origin with neither field. And the quaternion of the angles
  \<open>(\<pi>/2, \<pi>/2, 0)\<close> is the extrinsic one, not the intrinsic X-Y-Z one.
\<close>

theorem origin_to_transform_partial_origin:
  "origin_to_transform (Some \<lparr>xyz = Some (1, 0, 0), rpy = None\<rparr>) = Inl UnboundLocalError
   \<and> origin_to_transform (Some \<lparr>xyz = None, rpy = None\<rparr>) = Inl UnboundLocalError
   \<and> origin_to_transform (Some \<lparr>xyz = Some (0, 0, 0), rpy = Some (pi / 2, pi / 2, 0)\<rparr>) =
       Inr (Some \<lparr>translation = Some (Vec3 0 0 0),
                  quaternion = Some (Quat (1 / 2) (1 / 2) (- (1 / 2)) (1 / 2)), scale = None\<rparr>)
   \<and> intrinsic_XYZ (pi / 2, pi / 2, 0) = Quat (1 / 2) (1 / 2) (1 / 2) (1 / 2)"
  using euler_orders_differ by (simp add: origin_to_transform_def np_array_def)

text \<open>
  C3, as the code has it. There is no guard on the axis: for a revolute, continuous or
  prismatic joint whose axis has norm zero, \<open>joint_motion_transform\<close> returns a
  transform, whose rotation (revolute, continuous) or translation (prismatic) is NaN.
\<close>

theorem joint_motion_transform_zero_axis:
  assumes "joint_axis j = Some a" and "np_linalg_norm a = 0"
  shows "joint_motion_transform j v =
     (if joint_type j = ''revolute'' \<or> joint_type j = ''continuous''
      then Some \<lparr>translation = None, quaternion = Some Quat_nan, scale = None\<rparr>
      else if joint_type j = ''prismatic''
      then Some \<lparr>translation = Some Vec3_nan, quaternion = None, scale = None\<rparr>
      else Some \<lparr>translation = None, quaternion = None, scale = None\<rparr>)"
proof -
  have "np_div_norm a = Vec3_nan"
    using assms(2) by (cases a) (simp add: np_div_norm_def Let_def)
  then show ?thesis
    using assms(1) by (simp add: joint_motion_transform_def Let_def Transform3D_def)
qed

theorem joint_motion_transform_zero_axis_witness:
  "joint_motion_transform (wrist\<lparr>joint_axis := Some (0, 0, 0)\<rparr>) 2
   = Some \<lparr>translation = Some Vec3_nan, quaternion = None, scale = None\<rparr>"
  using joint_motion_transform_zero_axis [of "wrist\<lparr>joint_axis := Some (0, 0, 0)\<rparr>"
      "(0, 0, 0)" 2]
  by (simp add: wrist_def np_linalg_norm_def)

text \<open>
  C3 as stated fails: a revolute joint with the axis \<open>(0, 0, 0)\<close> and the value 1 gives
  a transform, not an error.
\<close>

theorem joint_motion_transform_zero_axis_revolute:
  "joint_motion_transform (shoulder\<lparr>joint_axis := Some (0, 0, 0)\<rparr>) 1
   = Some \<lparr>translation = None, quaternion = Some Quat_nan, scale = None\<rparr>"
  by (simp add: joint_motion_transform_def shoulder_def np_div_norm_def np_linalg_norm_def
      Transform3D_def)

text \<open>
  C4, as the code has it. With the axis of the joint, or \<open>(1, 0, 0)\<close> when it has none,
  and that axis not zero for the three moving kinds: a revolute or continuous joint
  gives a transform
  with only a rotation, the unit quaternion of the rotation by \<open>v\<close> about the
  normalised axis; a prismatic joint gives a transform with only a translation, the
  normalised axis times \<open>v\<close>; any other kind gives the transform with no component
  set, which is a transform and not \<open>None\<close>.
\<close>

theorem joint_motion_transform_kinds:
  assumes "axis = (case joint_axis j of Some a \<Rightarrow> a | None \<Rightarrow> (1, 0, 0))"
    and "joint_type j \<in> {''revolute'', ''continuous'', ''prismatic''}
         \<Longrightarrow> np_linalg_norm axis \<noteq> 0"
  shows "if joint_type j = ''revolute'' \<or> joint_type j = ''continuous''
         then joint_motion_transform j v =
                Some \<lparr>translation = None,
                      quaternion = Some (axis_angle_quat (unit_vector axis) v),
                      scale = None\<rparr>
              \<and> unit_quat (axis_angle_quat (unit_vector axis) v)
         else if joint_type j = ''prismatic''
         then joint_motion_transform j v =
                Some \<lparr>translation = Some (np_scale (np_array (unit_vector axis)) v),
                      quaternion = None, scale = None\<rparr>
         else joint_motion_transform j v = Some Transform3D
              \<and> joint_motion_transform j v \<noteq> None"
proof -
  have body: "joint_motion_transform j v =
     (if joint_type j = ''revolute'' \<or> joint_type j = ''continuous''
      then Some (Transform3D\<lparr>quaternion := Some (from_rotvec (np_scale (np_div_norm axis) v))\<rparr>)
      else if joint_type j = ''prismatic''
      then Some (Transform3D\<lparr>translation := Some (np_scale (np_div_norm axis) v)\<rparr>)
      else Some Transform3D)"
    unfolding joint_motion_transform_def assms(1) by (simp add: Let_def)
  show ?thesis
  proof (cases "joint_type j \<in> {''revolute'', ''continuous'', ''prismatic''}")
    case True
    then have n0: "np_linalg_norm axis \<noteq> 0" by (rule assms(2))
    have dn: "np_div_norm axis = np_array (unit_vector axis)"
      using n0 by (cases axis)
        (simp add: np_div_norm_def np_linalg_norm_def unit_vector_def np_array_def Let_def)
    have rv: "from_rotvec (np_scale (np_div_norm axis) v) = axis_angle_quat (unit_vector axis) v"
      by (rule from_rotvec_unit_axis [OF n0])
    show ?thesis
      unfolding body rv using True
      by (simp add: dn Transform3D_def axis_angle_quat_unit [OF n0])
  next
    case False
    then show ?thesis unfolding body by simp
  qed
qed

theorem joint_motion_transform_kinds_witness:
  "joint_motion_transform (wrist\<lparr>joint_axis := Some (2, 0, 0)\<rparr>) 2
     = Some \<lparr>translation = Some (Vec3 2 0 0), quaternion = None, scale = None\<rparr>
   \<and> joint_motion_transform (shoulder\<lparr>joint_axis := None\<rparr>) pi
     = Some \<lparr>translation = None, quaternion = Some (Quat 1 0 0 0), scale = None\<rparr>
   \<and> joint_motion_transform shoulder 0
     = Some \<lparr>translation = None, quaternion = Some (Quat 0 0 0 1), scale = None\<rparr>
   \<and> joint_motion_transform (shoulder\<lparr>joint_type := ''fixed'', joint_axis := Some (0, 0, 0)\<rparr>) 5
     = Some \<lparr>translation = None, quaternion = None, scale = None\<rparr>"
  using joint_motion_transform_kinds [of "(2, 0, 0)" "wrist\<lparr>joint_axis := Some (2, 0, 0)\<rparr>" 2]
    joint_motion_transform_kinds [of "(1, 0, 0)" "shoulder\<lparr>joint_axis := None\<rparr>" pi]
    joint_motion_transform_kinds [of "(0, 0, 1)" shoulder 0]
    joint_motion_transform_kinds [of "(0, 0, 0)"
      "shoulder\<lparr>joint_type := ''fixed'', joint_axis := Some (0, 0, 0)\<rparr>" 5]
  by (simp add: wrist_def shoulder_def np_linalg_norm_def unit_vector_def np_array_def
      axis_angle_quat_def Transform3D_def)

text \<open>
  C4 as stated fails: it speaks of every joint, and a continuous joint with the axis
  \<open>(0, 0, 0)\<close> and the value 2 gives a rotation that is NaN, not a unit quaternion.
\<close>

theorem joint_motion_transform_continuous_zero_axis:
  "joint_motion_transform
     (shoulder\<lparr>joint_type := ''continuous'', joint_axis := Some (0, 0, 0)\<rparr>) 2
   = Some \<lparr>translation = None, quaternion = Some Quat_nan, scale = None\<rparr>
   \<and> \<not> unit_quat Quat_nan"
  by (simp add: joint_motion_transform_def shoulder_def np_div_norm_def np_linalg_norm_def
      Transform3D_def)

text \<open>
  C5. Composing with the absent transform, on either side, returns the other argument
  as it is, absent or not, whatever the libraries do.
\<close>

theorem compose_None: "compose L None t = Inr t \<and> compose L t None = Inr t"
  by (cases t) (simp_all add: compose_def)



text \<open>
  With libraries that give back the numbers a transform was built with, the
  arithmetic of the source is the one its comments announce. For two transforms that
  are present, a missing translation read as zero and a missing rotation as the
  identity quaternion, and the rotations unit quaternions: the translation of the
  composition is the first translation plus the second one rotated by the first
  rotation, its rotation is the Hamilton product of the first rotation with the second,
  and it has no scale.
\<close>

lemma plain_numlib_simps:
  "translation_array plain_numlib = translation"
  "quaternion_array plain_numlib = quaternion"
  "np_zeros_3 plain_numlib = Vec3 0 0 0"
  "np_array_4 plain_numlib = Quat"
  "Rotation_from_quat plain_numlib = from_quat"
  "Rotation_mul plain_numlib = rot_mul"
  "Rotation_apply plain_numlib = (\<lambda>r v. Inr (rot_apply r v))"
  "Rotation_as_quat plain_numlib = (\<lambda>r. r)"
  "np_add_arrays plain_numlib = (\<lambda>u v. Inr (np_add u v))"
  "Transform3D_of plain_numlib
     = (\<lambda>t q. \<lparr>translation = Some t, quaternion = Some q, scale = None\<rparr>)"
  by (simp_all add: plain_numlib_def)

lemma compose_plain_numlib:
  assumes "tr1 = (case translation a of Some v \<Rightarrow> v | None \<Rightarrow> Vec3 0 0 0)"
    and "tr2 = (case translation b of Some v \<Rightarrow> v | None \<Rightarrow> Vec3 0 0 0)"
    and "q1 = (case quaternion a of Some q \<Rightarrow> q | None \<Rightarrow> Quat 0 0 0 1)"
    and "q2 = (case quaternion b of Some q \<Rightarrow> q | None \<Rightarrow> Quat 0 0 0 1)"
    and "unit_quat q1" and "unit_quat q2"
  shows "compose plain_numlib (Some a) (Some b) =
     Inr (Some \<lparr>translation = Some (np_add tr1 (rot_apply q1 tr2)),
                quaternion = Some (compose_quat q1 q2), scale = None\<rparr>)"
proof -
  have f1: "from_quat q1 = Inr q1" and f2: "from_quat q2 = Inr q2"
    using assms(5,6) by (simp_all add: from_quat_unit)
  have m: "rot_mul q1 q2 = Inr (compose_quat q1 q2)"
    using assms(5,6) by (rule rot_mul_unit)
  show ?thesis
    using f1 f2 m unfolding compose_def assms(1-4) plain_numlib_simps
    by (simp add: Let_def)
qed

lemma compose_plain_numlib_example:
  "compose plain_numlib
     (Some \<lparr>translation = Some (Vec3 1 0 0), quaternion = Some (Quat 0 0 1 0),
            scale = Some (2, 2, 2)\<rparr>)
     (Some \<lparr>translation = Some (Vec3 0 1 0), quaternion = Some (Quat 1 0 0 0), scale = None\<rparr>)
   = Inr (Some \<lparr>translation = Some (Vec3 1 (- 1) 0), quaternion = Some (Quat 0 1 0 0),
                scale = None\<rparr>)"
  using compose_plain_numlib [of "Vec3 1 0 0"
      "\<lparr>translation = Some (Vec3 1 0 0), quaternion = Some (Quat 0 0 1 0),
        scale = Some (2, 2, 2)\<rparr>"
      "Vec3 0 1 0" "\<lparr>translation = Some (Vec3 0 1 0), quaternion = Some (Quat 1 0 0 0), scale = None\<rparr>"
      "Quat 0 0 1 0" "Quat 1 0 0 0"]
  by simp

text \<open>
  The order of the composition: the composed transform sends a point where the first
  transform sends the image of the point under the second.
\<close>

lemma rot_apply_np_add:
  "rot_apply q (np_add u v) = np_add (rot_apply q u) (rot_apply q v)"
  by (cases q; cases u; cases v) (simp_all add: algebra_simps)

lemma np_add_assoc: "np_add (np_add u v) w = np_add u (np_add v w)"
  by (cases u; cases v; cases w) simp_all

lemma compose_acts_in_order:
  "transform_point (np_add tr1 (rot_apply q1 tr2)) (compose_quat q1 q2) p
   = transform_point tr1 q1 (transform_point tr2 q2 p)"
  by (simp add: transform_point_def rot_apply_compose_quat rot_apply_np_add np_add_assoc)

section \<open>Logging\<close>

lemma origin_to_transform_complete:
  assumes "complete_origin origin"
  obtains t where "origin_to_transform origin = Inr t"
  using assms
  by (cases origin) (auto simp: complete_origin_def origin_to_transform_def)

text \<open>
  A visual whose geometry is not a mesh, and whose origin is absent or complete, is
  refused before anything is loaded or logged.
\<close>

lemma log_visual_not_mesh:
  assumes "complete_origin (visual_origin vis)"
    and "\<not> is_Mesh (visual_geometry vis)"
  shows "log_visual self ev entity_path vis w
         = (Inl (NotImplementedError ''Only mesh geometries are supported.''), w)"
proof -
  obtain t where t: "origin_to_transform (visual_origin vis) = Inr t"
    using assms(1) by (rule origin_to_transform_complete)
  show ?thesis
    using assms(2) by (cases "visual_geometry vis") (simp_all add: log_visual_def t is_Mesh_def)
qed

text \<open>
  C8. A box with an origin that has a translation and no rotation: the call ends in the
  \<^verbatim>\<open>UnboundLocalError\<close> of \<open>origin_to_transform\<close>, which runs before the test of the
  geometry, and not in the error for an unsupported geometry. Nothing is logged.
\<close>

theorem log_visual_box_partial_origin:
  "log_visual (arm_logger []) arm_env ''/base/visual_0'' box_visual world0
   = (Inl UnboundLocalError, world0)
   \<and> (Inl UnboundLocalError :: error + unit)
       \<noteq> Inl (NotImplementedError ''Only mesh geometries are supported.'')"
  by (simp add: log_visual_def box_visual_def origin_to_transform_def)

text \<open>
  C10, as the code has it. A visual with a mesh geometry, an origin that is absent or
  complete, and a mesh file that loads as a scene: the call ends in the error for
  geometries that are not a single mesh. The mesh file is the only file loaded, so the
  material has not been applied and its texture has not been opened, and nothing is
  logged.
\<close>

theorem log_visual_scene:
  assumes "visual_geometry vis = Mesh filename mesh_scale"
    and "complete_origin (visual_origin vis)"
    and "load_mesh ev (path_join ev (root_path self) filename) = Inr (Scene ms)"
  shows "log_visual self ev entity_path vis w
         = (Inl (NotImplementedError ''Only single mesh geometries are supported.''),
            w\<lparr>loader_calls := loader_calls w @ [path_join ev (root_path self) filename]\<rparr>)"
proof -
  obtain t where t: "origin_to_transform (visual_origin vis) = Inr t"
    using assms(2) by (rule origin_to_transform_complete)
  show ?thesis
    by (simp add: log_visual_def t assms(1,3) Let_def loader_call_def)
qed

theorem log_visual_scene_witness:
  "log_visual (arm_logger []) arm_env ''/base/arm/hand/visual_0''
     (hand_visual\<lparr>visual_material := None\<rparr>) world0
   = (Inl (NotImplementedError ''Only single mesh geometries are supported.''),
      \<lparr>rr_calls = [], loader_calls = [''./hand.glb''], rng_draws = 0\<rparr>)"
  using log_visual_scene [of "hand_visual\<lparr>visual_material := None\<rparr>" "''hand.glb''" None
      arm_env "arm_logger []" "[triangle, triangle]" "''/base/arm/hand/visual_0''" world0]
  by (simp add: hand_visual_def arm_env_def arm_logger_def complete_origin_def world0_def)

text \<open>
  C10 as stated fails. The visual \<open>hand_visual\<close> has a material with a texture and a
  mesh file that loads as a scene: the error is raised with the texture never opened,
  so not after the material is resolved. For \<open>arm_visual\<close>, with the same material and
  a file that loads as a single mesh, resolving the material opens the texture.
\<close>

theorem log_visual_scene_texture:
  "log_visual (arm_logger []) arm_env ''/base/arm/hand/visual_0'' hand_visual world0
   = (Inl (NotImplementedError ''Only single mesh geometries are supported.''),
      \<lparr>rr_calls = [], loader_calls = [''./hand.glb''], rng_draws = 0\<rparr>)
   \<and> log_visual (arm_logger []) arm_env ''/base/arm/visual_0'' arm_visual world0
   = (Inl (NotImplementedError ''Only color visuals are supported.''),
      \<lparr>rr_calls = [], loader_calls = [''./arm.stl'', ''./wood.png''], rng_draws = 0\<rparr>)"
  by (simp add: log_visual_def hand_visual_def arm_visual_def wood_def arm_env_def
      arm_logger_def world0_def origin_to_transform_def loader_call_def triangle_def
      is_TextureVisuals_def log_trimesh_def)

lemma enumerate_shift:
  "map (\<lambda>(k, p). f (Suc n + k) p) (enumerate i ps) = map (\<lambda>(k, p). f (n + k) p) (enumerate (Suc i) ps)"
  by (induction ps arbitrary: i) simp_all

lemma log_random_joints_records:
  assumes "map (joint_entity_path self) js = map Inr paths"
  shows "log_random_joints self ev js w =
     (Inr (), w\<lparr>rr_calls := rr_calls w @
                  map (\<lambda>(k, p). Rr_log p (Matrix (random_matrix ev (rng_draws w + k))) False)
                    (enumerate 0 paths),
               rng_draws := rng_draws w + length paths\<rparr>)"
  using assms
proof (induction js arbitrary: paths w)
  case Nil
  then show ?case by simp
next
  case (Cons j js)
  then obtain p ps where paths: "paths = p # ps" and p: "joint_entity_path self j = Inr p"
    and ps: "map (joint_entity_path self) js = map Inr ps"
    by (cases paths) auto
  let ?w1 = "rr_log p (Matrix (random_matrix ev (rng_draws w))) False
               (w\<lparr>rng_draws := Suc (rng_draws w)\<rparr>)"
  have "log_random_joints self ev (j # js) w = log_random_joints self ev js ?w1"
    by (simp add: p Let_def)
  also have "\<dots> = (Inr (), ?w1\<lparr>rr_calls := rr_calls ?w1 @
                  map (\<lambda>(k, p). Rr_log p (Matrix (random_matrix ev (rng_draws ?w1 + k))) False)
                    (enumerate 0 ps),
               rng_draws := rng_draws ?w1 + length ps\<rparr>)"
    by (rule Cons.IH [OF ps])
  also have "\<dots> = (Inr (), w\<lparr>rr_calls := rr_calls w @
                  map (\<lambda>(k, p). Rr_log p (Matrix (random_matrix ev (rng_draws w + k))) False)
                    (enumerate 0 paths),
               rng_draws := rng_draws w + length paths\<rparr>)"
    using enumerate_shift [of "\<lambda>k p. Rr_log p (Matrix (random_matrix ev k)) False"
        "rng_draws w" 0 ps]
    by (simp add: paths rr_log_def)
  finally show ?case .
qed

text \<open>
  In the random mode (any \<open>joint_stats\<close> other than \<open>Original\<close>), when
  \<open>joint_entity_path\<close> returns for every joint, the call makes one call of \<^verbatim>\<open>rr.log\<close>
  for each joint, in order, at the path that \<open>joint_entity_path\<close> returns, with the
  matrix drawn for this joint, and does nothing else.
\<close>

lemma log_random_calls:
  assumes "joint_stats \<noteq> ''Original''"
    and "map (joint_entity_path self) (joints (urdf_of self)) = map Inr paths"
  shows "log self ev joint_stats w =
     (Inr (), w\<lparr>rr_calls := rr_calls w @
                  map (\<lambda>(k, p). Rr_log p (Matrix (random_matrix ev (rng_draws w + k))) False)
                    (enumerate 0 paths),
               rng_draws := rng_draws w + length paths\<rparr>)"
  using assms(1) log_random_joints_records [OF assms(2)] by (simp add: log_def)

text \<open>
  C9. For the small model with the prefix \<open>xx\<close>, the random mode calls \<^verbatim>\<open>rr.log\<close> once
  for each of the two joints, at \<open>xxbase/arm\<close> and \<open>xxbase/arm/hand\<close>. These are the
  paths of the child links, because \<open>joint_entity_path\<close> keeps the link names of the
  chain; the joint names of the two chains give \<open>xxshoulder\<close> and \<open>xxshoulder/wrist\<close>.
\<close>

theorem log_random_arm:
  "log (arm_logger ''xx'') arm_env ''Random'' world0 =
     (Inr (), \<lparr>rr_calls = [Rr_log ''xxbase/arm'' (Matrix (random_matrix arm_env 0)) False,
                          Rr_log ''xxbase/arm/hand'' (Matrix (random_matrix arm_env 1)) False],
              loader_calls = [], rng_draws = 2\<rparr>)
   \<and> map (\<lambda>j. get_chain arm_urdf ''base'' (joint_child j)) (joints arm_urdf)
       = [Inr (chain_of ''base'' [(''shoulder'', ''arm'')]),
          Inr (chain_of ''base'' [(''shoulder'', ''arm''), (''wrist'', ''hand'')])]
   \<and> prefixed ''xx'' (slice_1_2 (chain_of ''base'' [(''shoulder'', ''arm'')])) = ''xxshoulder''
   \<and> prefixed ''xx'' (slice_1_2 (chain_of ''base'' [(''shoulder'', ''arm''), (''wrist'', ''hand'')]))
       = ''xxshoulder/wrist''"
  by (simp add: log_def arm_logger_def arm_urdf_def arm_chain_def shoulder_def wrist_def
      joint_entity_path_def world0_def rr_log_def chain_of_def prefixed_def slice_1_2_def)

text \<open>
  In the mode \<open>Original\<close> the same model is refused: the origin of \<open>wrist\<close> has no
  rotation, and \<open>origin_to_transform\<close>, which that mode calls, raises.
\<close>

lemma log_original_arm:
  "log (arm_logger ''xx'') arm_env ''Original'' world0 = (Inl UnboundLocalError, world0)"
  by (simp add: log_def arm_logger_def arm_urdf_def arm_chain_def shoulder_def wrist_def
      joint_entity_path_def log_joint_def origin_to_transform_def)

end
